theory Spec2Isabelle
  imports Complex_Main "HOL-Library.AList" "HOL-Library.List_Lexorder" "HOL-Library.Char_ord"
begin

section \<open>Training a random forest: the pipeline of \<open>train_random_forest/run.py\<close>\<close>

text \<open>
  The script builds a scikit-learn pipeline (column transforms followed by a random
  forest), splits the data, fits, scores and plots the feature importance. The theory
  embeds the functions of the script: \<open>delta_date_feature\<close>, \<open>go\<close> (up to the
  construction of the pipeline), \<open>plot_feature_importance\<close> and
  \<open>get_inference_pipeline\<close>. Importances are modelled as real numbers (exact
  arithmetic), Python integers as \<open>int\<close>, dictionaries as maps, exceptions as the
  left summand of a sum type.
\<close>

subsection \<open>Python values and exceptions\<close>

text \<open>
  \<open>TypeError\<close>, \<open>KeyError\<close> and \<open>ValueError\<close> are the exceptions the calls of the
  script raise. \<open>ConfigError\<close> is the error its specification names for a bad
  configuration; no path of the script raises it.
\<close>

datatype error =
    TypeError
  | KeyError string
  | ValueError
  | ConfigError

datatype pyval =
    PyNone
  | PyBool bool
  | PyInt int
  | PyFloat real
  | PyStr string
  | PyList "pyval list"
  | PyDict "(string \<times> pyval) list"

text \<open>
  Slices \<open>a[:n]\<close> and \<open>a[n:]\<close> of a sequence: a negative bound counts from the end,
  and a bound outside the sequence is clipped to it.
\<close>

definition slice_bound :: "'a list \<Rightarrow> int \<Rightarrow> nat" where
  "slice_bound xs n = nat (if n < 0 then int (length xs) + n else n)"

definition slice_to :: "'a list \<Rightarrow> int \<Rightarrow> 'a list" where
  "slice_to xs n = take (slice_bound xs n) xs"

definition slice_from :: "'a list \<Rightarrow> int \<Rightarrow> 'a list" where
  "slice_from xs n = drop (slice_bound xs n) xs"

text \<open>The builtin \<open>sum\<close>: start from 0 and add the items from left to right.\<close>

definition py_sum :: "real list \<Rightarrow> real" where
  "py_sum xs = foldl (+) 0 xs"

subsection \<open>\<open>plot_feature_importance\<close>\<close>

text \<open>
  \<^verbatim>\<open>
  feat_imp = pipe["random_forest"].feature_importances_[: len(feat_names)-1]
  nlp_importance = sum(pipe["random_forest"].feature_importances_[len(feat_names) - 1:])
  feat_imp = np.append(feat_imp, nlp_importance)
  sub_feat_imp.bar(range(feat_imp.shape[0]), feat_imp, ...)
  sub_feat_imp.set_xticks(range(feat_imp.shape[0]))
  sub_feat_imp.set_xticklabels(np.array(feat_names), rotation=90)
  \<close>
  The first argument of the model is the array \<open>feature_importances_\<close> of the fitted
  forest. The figure is its content: the heights of the bars, the positions of the ticks
  and their labels.
\<close>

record figure =
  bars :: "real list"
  xticks :: "nat list"
  xticklabels :: "string list"

definition feat_imp :: "real list \<Rightarrow> string list \<Rightarrow> real list" where
  "feat_imp feature_importances feat_names =
     (let n = int (length feat_names) - 1;
          non_nlp = slice_to feature_importances n;
          nlp_importance = py_sum (slice_from feature_importances n)
      in non_nlp @ [nlp_importance])"

definition plot_feature_importance :: "real list \<Rightarrow> string list \<Rightarrow> figure" where
  "plot_feature_importance feature_importances feat_names =
     (let fi = feat_imp feature_importances feat_names
      in \<lparr> bars = fi, xticks = [0 ..< length fi], xticklabels = feat_names \<rparr>)"

subsection \<open>\<open>get_inference_pipeline\<close>\<close>

text \<open>
  The transformers of the \<open>ColumnTransformer\<close>, as the script configures them. A
  \<open>SimpleImputer\<close> carries its strategy and fill value, a \<open>FunctionTransformer\<close> the
  name of its function, the \<open>TfidfVectorizer\<close> its \<open>max_features\<close>.
\<close>

datatype step =
    OrdinalEncoder
  | OneHotEncoder
  | SimpleImputer string "pyval option"
  | FunctionTransformer string
  | TfidfVectorizer int

record estimator =
  params :: "string \<rightharpoonup> pyval"

record sk_pipe =
  preprocessor :: "(string \<times> step list \<times> string list) list"
  random_forest :: estimator

text \<open>
  \<open>RandomForestRegressor(**rf_config)\<close>: the dictionary is a map from names to
  values. Python binds the keyword arguments to the parameters of the constructor and
  raises \<open>TypeError\<close> for a keyword that is not one of them. The constructor belongs
  to scikit-learn; its parameters with their defaults are the argument
  \<open>init_params\<close>. The estimator keeps the defaults, overridden by the keywords given.
\<close>

definition RandomForestRegressor ::
  "(string \<rightharpoonup> pyval) \<Rightarrow> (string \<rightharpoonup> pyval) \<Rightarrow> error + estimator" where
  "RandomForestRegressor init_params kwargs =
     (if dom kwargs \<subseteq> dom init_params
      then Inr \<lparr> params = init_params ++ kwargs \<rparr>
      else Inl TypeError)"

text \<open>
  The parameters of the constructor and their defaults in scikit-learn 1.4, for the
  examples.
\<close>

definition sklearn_init_params :: "string \<rightharpoonup> pyval" where
  "sklearn_init_params =
     [''n_estimators'' \<mapsto> PyInt 100, ''criterion'' \<mapsto> PyStr ''squared_error'',
      ''max_depth'' \<mapsto> PyNone, ''min_samples_split'' \<mapsto> PyInt 2,
      ''min_samples_leaf'' \<mapsto> PyInt 1, ''min_weight_fraction_leaf'' \<mapsto> PyFloat 0,
      ''max_features'' \<mapsto> PyFloat 1, ''max_leaf_nodes'' \<mapsto> PyNone,
      ''min_impurity_decrease'' \<mapsto> PyFloat 0, ''bootstrap'' \<mapsto> PyBool True,
      ''oob_score'' \<mapsto> PyBool False, ''n_jobs'' \<mapsto> PyNone,
      ''random_state'' \<mapsto> PyNone, ''verbose'' \<mapsto> PyInt 0,
      ''warm_start'' \<mapsto> PyBool False, ''ccp_alpha'' \<mapsto> PyFloat 0,
      ''max_samples'' \<mapsto> PyNone, ''monotonic_cst'' \<mapsto> PyNone]"

definition ordinal_categorical :: "string list" where
  "ordinal_categorical = [''room_type'']"

definition non_ordinal_categorical :: "string list" where
  "non_ordinal_categorical = [''neighbourhood_group'']"

definition zero_imputed :: "string list" where
  "zero_imputed =
     [''minimum_nights'', ''number_of_reviews'', ''reviews_per_month'',
      ''calculated_host_listings_count'', ''availability_365'', ''longitude'', ''latitude'']"

definition non_ordinal_categorical_preproc :: "step list" where
  "non_ordinal_categorical_preproc = [SimpleImputer ''most_frequent'' None, OneHotEncoder]"

definition date_imputer :: "step list" where
  "date_imputer =
     [SimpleImputer ''constant'' (Some (PyStr ''2010-01-01'')),
      FunctionTransformer ''delta_date_feature'']"

definition name_tfidf :: "int \<Rightarrow> step list" where
  "name_tfidf max_tfidf_features =
     [SimpleImputer ''constant'' (Some (PyStr [])), FunctionTransformer ''np.reshape'',
      TfidfVectorizer max_tfidf_features]"

definition transformers :: "int \<Rightarrow> (string \<times> step list \<times> string list) list" where
  "transformers max_tfidf_features =
     [(''ordinal_cat'', [OrdinalEncoder], ordinal_categorical),
      (''non_ordinal_cat'', non_ordinal_categorical_preproc, non_ordinal_categorical),
      (''impute_zero'', [SimpleImputer ''constant'' (Some (PyInt 0))], zero_imputed),
      (''transform_date'', date_imputer, [''last_review'']),
      (''transform_name'', name_tfidf max_tfidf_features, [''name''])]"

definition processed_features :: "string list" where
  "processed_features =
     ordinal_categorical @ non_ordinal_categorical @ zero_imputed @ [''last_review'', ''name'']"

definition get_inference_pipeline ::
  "(string \<rightharpoonup> pyval) \<Rightarrow> (string \<rightharpoonup> pyval) \<Rightarrow> int \<Rightarrow> error + (sk_pipe \<times> string list)" where
  "get_inference_pipeline init_params rf_config max_tfidf_features =
     (case RandomForestRegressor init_params rf_config of
        Inl e \<Rightarrow> Inl e
      | Inr forest \<Rightarrow>
          Inr (\<lparr> preprocessor = transformers max_tfidf_features, random_forest = forest \<rparr>,
               processed_features))"

subsection \<open>\<open>go\<close>: configuration, split and pipeline\<close>

text \<open>
  A data frame is the list of its columns, each with its name. \<open>X.pop(name)\<close> and
  \<open>X[name]\<close> raise \<open>KeyError\<close> when no column has the name.
\<close>

type_synonym 'c dataframe = "(string \<times> 'c list) list"

definition pop :: "string \<Rightarrow> 'c dataframe \<Rightarrow> error + ('c list \<times> 'c dataframe)" where
  "pop name X =
     (case map_of X name of
        None \<Rightarrow> Inl (KeyError name)
      | Some col \<Rightarrow> Inr (col, AList.delete name X))"

definition getitem :: "'c dataframe \<Rightarrow> string \<Rightarrow> error + 'c list" where
  "getitem X name =
     (case map_of X name of
        None \<Rightarrow> Inl (KeyError name)
      | Some col \<Rightarrow> Inr col)"

text \<open>
  The part of \<open>go\<close> that decides the configuration of the forest, the split and the
  pipeline:
  \<^verbatim>\<open>
  rf_config['random_state'] = args.random_seed
  X = pd.read_csv(trainval_local_path)
  y = X.pop("price")
  X_train, X_val, y_train, y_val = train_test_split(
      X, y, test_size=args.val_size, stratify=X[args.stratify_by],
      random_state=args.random_seed)
  sk_pipe, processed_features = get_inference_pipeline(rf_config, args.max_tfidf_features)
  \<close>
  \<open>rf_config\<close> is the dictionary read from the configuration file and \<open>X\<close> the frame
  read from the artifact. \<open>train_test_split\<close> belongs to scikit-learn and is an
  argument of the model: it takes the frame, the target, the test size, the labels to
  stratify by (\<open>None\<close> for a split without stratification) and the random state.
\<close>

record ('c, 's) prepared =
  config :: "string \<rightharpoonup> pyval"
  folds :: 's
  pipe :: sk_pipe
  features :: "string list"

definition go ::
  "(string \<rightharpoonup> pyval) \<Rightarrow>
   ('c dataframe \<Rightarrow> 'c list \<Rightarrow> real \<Rightarrow> 'c list option \<Rightarrow> int \<Rightarrow> error + 's) \<Rightarrow>
   (string \<rightharpoonup> pyval) \<Rightarrow> int \<Rightarrow> real \<Rightarrow> string \<Rightarrow> int \<Rightarrow> 'c dataframe \<Rightarrow>
   error + ('c, 's) prepared" where
  "go init_params train_test_split rf_config random_seed val_size stratify_by
      max_tfidf_features X0 =
     (let rf_config' = rf_config(''random_state'' \<mapsto> PyInt random_seed) in
      case pop ''price'' X0 of
        Inl e \<Rightarrow> Inl e
      | Inr (y, X) \<Rightarrow>
          (case getitem X stratify_by of
             Inl e \<Rightarrow> Inl e
           | Inr labels \<Rightarrow>
               (case train_test_split X y val_size (Some labels) random_seed of
                  Inl e \<Rightarrow> Inl e
                | Inr s \<Rightarrow>
                    (case get_inference_pipeline init_params rf_config' max_tfidf_features of
                       Inl e \<Rightarrow> Inl e
                     | Inr (sk, feats) \<Rightarrow>
                         Inr \<lparr> config = rf_config', folds = s, pipe = sk,
                               features = feats \<rparr>))))"


subsection \<open>The importance reduction the feature groups call for\<close>

text \<open>
  The reduction by groups, written from the description of the importance reducer (not
  from the script): walk the groups in the order of the plan, take as many raw entries
  as the group is wide, and sum them into the scalar of the group.
\<close>

fun reduce_by_widths :: "nat list \<Rightarrow> real list \<Rightarrow> real list" where
  "reduce_by_widths [] raw = []"
| "reduce_by_widths (w # ws) raw = sum_list (take w raw) # reduce_by_widths ws (drop w raw)"

text \<open>
  The output widths of the transformers of \<open>get_inference_pipeline\<close>, one per name of
  \<open>processed_features\<close>: 1 for the ordinal column, \<open>k\<close> for the one-hot column with
  \<open>k\<close> categories, 1 for each of the seven numeric columns and for the date, \<open>t\<close> for
  the text column with a vocabulary of \<open>t\<close> terms.
\<close>

definition plan_widths :: "nat \<Rightarrow> nat \<Rightarrow> nat list" where
  "plan_widths k t = [1, k] @ replicate (length zero_imputed) 1 @ [1, t]"

subsection \<open>The one-hot group: \<open>make_pipeline(SimpleImputer(strategy="most_frequent"), OneHotEncoder())\<close>\<close>

text \<open>
  Both steps belong to scikit-learn; they are modelled on one column, as its
  documentation describes them with the arguments the script passes. A missing value
  (\<open>NaN\<close>) is \<open>None\<close>.

  \<open>SimpleImputer(strategy="most_frequent")\<close>: the statistic learnt by \<open>fit\<close> is the most
  frequent value among those present, the smallest one when several are as frequent;
  there is none when every value is missing. \<open>transform\<close> puts the statistic in the
  place of each missing value.
\<close>

fun observed :: "'a option list \<Rightarrow> 'a list" where
  "observed [] = []"
| "observed (None # cs) = observed cs"
| "observed (Some v # cs) = v # observed cs"

definition most_frequent :: "('a::linorder) list \<Rightarrow> 'a option" where
  "most_frequent vs =
     (if vs = [] then None
      else let top = Max (set (map (count_list vs) vs))
           in Some (Min (set (filter (\<lambda>v. count_list vs v = top) vs))))"

definition SimpleImputer_fit :: "('a::linorder) option list \<Rightarrow> 'a option" where
  "SimpleImputer_fit col = most_frequent (observed col)"

definition SimpleImputer_transform :: "'a \<Rightarrow> 'a option list \<Rightarrow> 'a list" where
  "SimpleImputer_transform statistic col =
     map (\<lambda>c. case c of None \<Rightarrow> statistic | Some v \<Rightarrow> v) col"

text \<open>
  \<open>OneHotEncoder()\<close>: \<open>fit\<close> learns the categories of the column, its distinct values in
  increasing order. \<open>transform\<close> gives each row one column per category, 1 in the column
  of the row's value and 0 elsewhere; with the default \<open>handle_unknown="error"\<close> it
  raises \<open>ValueError\<close> when a value is not among the categories.
\<close>

definition OneHotEncoder_fit :: "('a::linorder) list \<Rightarrow> 'a list" where
  "OneHotEncoder_fit col = sort (remdups col)"

definition one_hot :: "'a list \<Rightarrow> 'a \<Rightarrow> real list" where
  "one_hot categories v = map (\<lambda>c. if c = v then 1 else 0) categories"

definition OneHotEncoder_transform :: "'a list \<Rightarrow> 'a list \<Rightarrow> error + real list list" where
  "OneHotEncoder_transform categories col =
     (if list_all (\<lambda>v. v \<in> set categories) col
      then Inr (map (one_hot categories) col)
      else Inl ValueError)"

text \<open>
  The pipeline of the two steps. Its fitted state is the statistic of the imputer and
  the categories of the encoder. \<open>fit\<close> fits the imputer, transforms the column with
  it, and fits the encoder on the result; a column with no value present leaves the
  encoder nothing to fit on, which it refuses with \<open>ValueError\<close>.
\<close>

definition non_ordinal_categorical_fit ::
  "('a::linorder) option list \<Rightarrow> error + ('a \<times> 'a list)" where
  "non_ordinal_categorical_fit col =
     (case SimpleImputer_fit col of
        None \<Rightarrow> Inl ValueError
      | Some statistic \<Rightarrow>
          Inr (statistic, OneHotEncoder_fit (SimpleImputer_transform statistic col)))"

definition non_ordinal_categorical_transform ::
  "'a \<times> 'a list \<Rightarrow> 'a option list \<Rightarrow> error + real list list" where
  "non_ordinal_categorical_transform fitted col =
     OneHotEncoder_transform (snd fitted) (SimpleImputer_transform (fst fitted) col)"

subsection \<open>\<open>delta_date_feature\<close>\<close>

text \<open>
  \<^verbatim>\<open>
  date_sanitized = pd.DataFrame(dates).apply(pd.to_datetime)
  return date_sanitized.apply(lambda d: (d.max() - d).dt.days, axis=0).to_numpy()
  \<close>
  The 2-d array \<open>dates\<close> is the list of its columns. \<open>pd.to_datetime\<close> belongs to
  pandas and is an argument of the model: applied to a column it raises, or gives the
  column of the parsed cells, each \<open>NaT\<close> (\<open>None\<close>, for a missing value) or a
  timestamp, counted in nanoseconds. The first \<open>apply\<close> raises as soon as a column
  does. \<open>max\<close> skips \<open>NaT\<close>; a difference with \<open>NaT\<close> is \<open>NaT\<close>, and its
  \<open>days\<close> are \<open>NaN\<close> (\<open>None\<close>). The \<open>days\<close> of a difference are its whole days,
  rounded down.
\<close>

definition NS_PER_DAY :: int where
  "NS_PER_DAY = 86400000000000"

fun sequence :: "(error + 'a) list \<Rightarrow> error + 'a list" where
  "sequence [] = Inr []"
| "sequence (Inl e # rs) = Inl e"
| "sequence (Inr v # rs) = (case sequence rs of Inl e \<Rightarrow> Inl e | Inr vs \<Rightarrow> Inr (v # vs))"

definition series_max :: "int option list \<Rightarrow> int option" where
  "series_max d = (case observed d of [] \<Rightarrow> None | t # ts \<Rightarrow> Some (fold max ts t))"

definition days :: "int \<Rightarrow> int" where
  "days delta = delta div NS_PER_DAY"

definition delta_days :: "int option list \<Rightarrow> int option list" where
  "delta_days d =
     map (\<lambda>x. case (series_max d, x) of
                 (Some m, Some t) \<Rightarrow> Some (days (m - t))
               | _ \<Rightarrow> None) d"

definition delta_date_feature ::
  "('c list \<Rightarrow> error + int option list) \<Rightarrow> 'c list list \<Rightarrow> error + int option list list" where
  "delta_date_feature to_datetime dates =
     (case sequence (map to_datetime dates) of
        Inl e \<Rightarrow> Inl e
      | Inr date_sanitized \<Rightarrow> Inr (map delta_days date_sanitized))"

subsection \<open>A small frame for the examples\<close>

text \<open>Two listings with the columns the script reads.\<close>

definition example_frame :: "pyval dataframe" where
  "example_frame =
     [(''name'', [PyStr ''Cozy loft'', PyStr ''Sunny room'']),
      (''neighbourhood_group'', [PyStr ''Brooklyn'', PyStr ''Queens'']),
      (''latitude'', [PyFloat 40.7, PyFloat 40.6]),
      (''longitude'', [PyFloat (-73.9), PyFloat (-73.8)]),
      (''room_type'', [PyStr ''Private room'', PyStr ''Entire home/apt'']),
      (''price'', [PyInt 80, PyInt 150]),
      (''minimum_nights'', [PyInt 1, PyInt 3]),
      (''number_of_reviews'', [PyInt 9, PyInt 45]),
      (''last_review'', [PyStr ''2018-10-19'', PyStr ''2019-05-21'']),
      (''reviews_per_month'', [PyFloat 0.21, PyFloat 0.38]),
      (''calculated_host_listings_count'', [PyInt 6, PyInt 2]),
      (''availability_365'', [PyInt 365, PyInt 355])]"

section \<open>Properties\<close>

subsection \<open>Sums and slices\<close>

lemma foldl_add_sum_list: "foldl (+) a xs = a + sum_list (xs :: real list)"
  by (induction xs arbitrary: a) simp_all





subsection \<open>The reduction of the importances\<close>

lemma length_processed_features: "length processed_features = 11"
  by (simp add: processed_features_def ordinal_categorical_def non_ordinal_categorical_def
      zero_imputed_def)

lemma reduce_ones:
  "n \<le> length raw \<Longrightarrow>
   reduce_by_widths (replicate n 1 @ [t]) raw = take n raw @ [sum_list (take t (drop n raw))]"
proof (induction n arbitrary: raw)
  case 0
  then show ?case by simp
next
  case (Suc n)
  then obtain r rs where "raw = r # rs" by (cases raw) auto
  with Suc show ?case by simp
qed

lemma plan_widths_one: "plan_widths 1 t = replicate 10 1 @ [t]"
  by (simp add: plan_widths_def zero_imputed_def numeral_eq_Suc)

text \<open>
  When the one-hot column has a single category, every group before the text group is
  one entry wide, and the bars are the reduction by groups.
\<close>

lemma bars_one_category:
  assumes "length raw = 10 + t"
  shows "bars (plot_feature_importance raw processed_features) =
         reduce_by_widths (plan_widths 1 t) raw"
proof -
  have "10 \<le> length raw" using assms by simp
  then have "reduce_by_widths (plan_widths 1 t) raw =
             take 10 raw @ [sum_list (take t (drop 10 raw))]"
    by (simp only: plan_widths_one reduce_ones)
  moreover have "take t (drop 10 raw) = drop 10 raw" using assms by simp
  ultimately show ?thesis
    by (simp add: plot_feature_importance_def feat_imp_def Let_def length_processed_features
        slice_to_def slice_from_def slice_bound_def py_sum_def foldl_add_sum_list)
qed

text \<open>
  C1. The figure does not reduce by groups once the one-hot column has two categories.
  With the raw vector of a plan of widths 1, 2, 1 (seven times), 1, 1 the script keeps
  the first ten raw entries as the first ten bars and sums the last two: the second
  one-hot entry becomes the bar of \<open>minimum_nights\<close>, the entry of \<open>latitude\<close> the bar
  of \<open>last_review\<close>, and the entry of the date is added to the text entry under
  \<open>name\<close>. The reduction by groups gives \<open>neighbourhood_group\<close> the sum of its two
  entries and \<open>name\<close> the text entry alone.
\<close>

theorem importance_misattributed_two_categories:
  "bars (plot_feature_importance
      [0.10, 0.20, 0.30, 0.05, 0.05, 0.05, 0.05, 0.05, 0.05, 0.05, 0.03, 0.02]
      processed_features)
     = [0.10, 0.20, 0.30, 0.05, 0.05, 0.05, 0.05, 0.05, 0.05, 0.05, 0.05]
   \<and> reduce_by_widths (plan_widths 2 1)
      [0.10, 0.20, 0.30, 0.05, 0.05, 0.05, 0.05, 0.05, 0.05, 0.05, 0.03, 0.02]
     = [0.10, 0.50, 0.05, 0.05, 0.05, 0.05, 0.05, 0.05, 0.05, 0.03, 0.02]"
  by (simp add: plot_feature_importance_def feat_imp_def Let_def processed_features_def
      ordinal_categorical_def non_ordinal_categorical_def zero_imputed_def slice_to_def
      slice_from_def slice_bound_def py_sum_def plan_widths_def)

subsection \<open>The recency delta of the dates\<close>

lemma sequence_map_Inr: "sequence (map (\<lambda>x. Inr (f x)) xs) = Inr (map f xs)"
  by (induction xs) simp_all

lemma observed_map_Some: "observed (map Some ts) = ts"
  by (induction ts) simp_all

lemma fold_max_Max: "fold max ts (t::int) = Max (set (t # ts))"
  by (rule Max.set_eq_fold[symmetric])

lemma series_max_Some: "ts \<noteq> [] \<Longrightarrow> series_max (map Some ts) = Some (Max (set ts))"
  by (cases ts) (simp_all add: series_max_def observed_map_Some fold_max_Max del: set_simps)

lemma delta_days_Some:
  "delta_days (map Some ts) = map (\<lambda>t. Some (days (Max (set ts) - t))) ts"
proof (cases "ts = []")
  case True
  then show ?thesis by (simp add: delta_days_def)
next
  case False
  then show ?thesis
    by (simp add: delta_days_def series_max_Some comp_def)
qed

lemma delta_date_feature_parsed:
  assumes "map to_datetime dates = map (\<lambda>col. Inr (map Some col)) ts"
  shows "delta_date_feature to_datetime dates =
         Inr (map (\<lambda>col. map (\<lambda>t. Some (days (Max (set col) - t))) col) ts)"
  by (simp add: delta_date_feature_def assms sequence_map_Inr comp_def delta_days_Some)




text \<open>
  C10. On a batch of one row whose dates parse, every delta is 0 whatever the dates: the
  reference of a column is the row's own timestamp. The output of a row depends on the
  batch: with a second row one day later in the same call, the delta of the first row
  is 1.
\<close>

theorem single_row_delta_zero:
  assumes "map to_datetime dates = map (\<lambda>t. Inr [Some t]) ts"
  shows "delta_date_feature to_datetime dates = Inr (map (\<lambda>t. [Some 0]) ts)
         \<and> (\<forall>c c' t. to_datetime [c, c'] = Inr [Some t, Some (t + NS_PER_DAY)] \<longrightarrow>
               delta_date_feature to_datetime [[c, c']] = Inr [[Some 1, Some 0]])"
proof (intro conjI allI impI)
  have "map to_datetime dates = map (\<lambda>col. Inr (map Some col)) (map (\<lambda>t. [t]) ts)"
    using assms by (simp add: comp_def)
  from delta_date_feature_parsed[OF this]
  show "delta_date_feature to_datetime dates = Inr (map (\<lambda>t. [Some 0]) ts)"
    by (simp add: days_def comp_def)
next
  fix c c' t
  assume "to_datetime [c, c'] = Inr [Some t, Some (t + NS_PER_DAY)]"
  then have "map to_datetime [[c, c']] = map (\<lambda>col. Inr (map Some col)) [[t, t + NS_PER_DAY]]"
    by simp
  from delta_date_feature_parsed[OF this]
  show "delta_date_feature to_datetime [[c, c']] = Inr [[Some 1, Some 0]]"
    by (simp add: days_def NS_PER_DAY_def)
qed

theorem single_row_delta_zero_witness:
  "delta_date_feature (\<lambda>col. Inr (map (\<lambda>d. Some (d * NS_PER_DAY)) col)) [[17823 :: int]]
     = Inr [[Some 0]]
   \<and> delta_date_feature (\<lambda>col. Inr (map (\<lambda>d. Some (d * NS_PER_DAY)) col))
       [[17823, 17824 :: int]]
     = Inr [[Some 1, Some 0]]"
  using single_row_delta_zero
    [of "\<lambda>col. Inr (map (\<lambda>d. Some (d * NS_PER_DAY)) col)" "[[17823]]"
        "[17823 * NS_PER_DAY]"]
  by (simp add: NS_PER_DAY_def)

subsection \<open>The one-hot group\<close>

lemma most_frequent_Some:
  assumes "vs \<noteq> []"
  shows "\<exists>s. most_frequent vs = Some s \<and> s \<in> set vs
             \<and> (\<forall>v. count_list vs v \<le> count_list vs s)"
proof -
  define top where "top = Max (set (map (count_list vs) vs))"
  define C where "C = set (filter (\<lambda>v. count_list vs v = top) vs)"
  define s where "s = Min C"
  have fin: "finite (set (map (count_list vs) vs))" by simp
  have ne: "set (map (count_list vs) vs) \<noteq> {}" using assms by simp
  have "top \<in> set (map (count_list vs) vs)"
    unfolding top_def using Max_in[OF fin ne] .
  then obtain w where "w \<in> set vs" "count_list vs w = top" by auto
  then have Cne: "C \<noteq> {}" by (auto simp: C_def)
  have Cfin: "finite C" by (simp add: C_def)
  have "s \<in> C" unfolding s_def using Min_in[OF Cfin Cne] .
  then have s_in: "s \<in> set vs" and s_top: "count_list vs s = top" by (auto simp: C_def)
  have top_ge: "count_list vs v \<le> top" for v
  proof (cases "v \<in> set vs")
    case True
    then have "count_list vs v \<in> set (map (count_list vs) vs)" by simp
    then show ?thesis unfolding top_def using Max_ge[OF fin] by blast
  next
    case False
    then show ?thesis by (simp add: count_list_0_iff)
  qed
  have "most_frequent vs = Some s"
    using assms by (simp add: most_frequent_def Let_def top_def C_def s_def)
  with s_in s_top top_ge show ?thesis by auto
qed

lemma set_observed: "set (observed col) = {v. Some v \<in> set col}"
  by (induction col rule: observed.induct) auto

lemma set_SimpleImputer_transform:
  "s \<in> set (observed col) \<Longrightarrow> set (SimpleImputer_transform s col) = set (observed col)"
  by (auto simp: SimpleImputer_transform_def set_observed split: option.splits)

lemma OneHotEncoder_fit_sorted_list: "OneHotEncoder_fit xs = sorted_list_of_set (set xs)"
  by (simp add: OneHotEncoder_fit_def sorted_list_of_set_sort_remdups)

lemma length_one_hot: "length (one_hot categories v) = length categories"
  by (simp add: one_hot_def)

lemma non_ordinal_categorical_fit_Inr:
  assumes "non_ordinal_categorical_fit train = Inr fitted"
  shows "fst fitted \<in> set (observed train)
         \<and> snd fitted = sorted_list_of_set (set (observed train))"
proof -
  from assms obtain s where s: "SimpleImputer_fit train = Some s"
    and fitted: "fitted = (s, OneHotEncoder_fit (SimpleImputer_transform s train))"
    by (auto simp: non_ordinal_categorical_fit_def split: option.splits)
  have ne: "observed train \<noteq> []"
    using s by (auto simp: SimpleImputer_fit_def most_frequent_def)
  from most_frequent_Some[OF ne] s have "s \<in> set (observed train)"
    by (auto simp: SimpleImputer_fit_def)
  with fitted show ?thesis
    by (simp add: OneHotEncoder_fit_sorted_list set_SimpleImputer_transform)
qed



text \<open>
  C7, as the script has it. The encoder is built with its default handling of unknown
  values: transforming a column that holds a value absent from the training column
  raises \<open>ValueError\<close>. The fitted categories are not changed by a transform: whenever
  a transform succeeds, each of its rows is as wide as the number of distinct values
  present in the training column.
\<close>

theorem unknown_category_raises:
  assumes "non_ordinal_categorical_fit train = Inr fitted"
    and "Some v \<in> set col"
    and "v \<notin> set (observed train)"
  shows "non_ordinal_categorical_transform fitted col = Inl ValueError
         \<and> (\<forall>col' rows. non_ordinal_categorical_transform fitted col' = Inr rows \<longrightarrow>
               (\<forall>r \<in> set rows. length r = card (set (observed train))))"
proof -
  from non_ordinal_categorical_fit_Inr[OF assms(1)]
  have cats: "snd fitted = sorted_list_of_set (set (observed train))" by simp
  have "v \<in> set (SimpleImputer_transform (fst fitted) col)"
    using assms(2) by (force simp: SimpleImputer_transform_def)
  moreover have "v \<notin> set (snd fitted)"
    using assms(3) by (simp add: cats)
  ultimately have "\<not> list_all (\<lambda>v. v \<in> set (snd fitted))
      (SimpleImputer_transform (fst fitted) col)"
    by (auto simp: list_all_iff)
  then have raises: "non_ordinal_categorical_transform fitted col = Inl ValueError"
    by (simp add: non_ordinal_categorical_transform_def OneHotEncoder_transform_def)
  have "length r = card (set (observed train))"
    if "non_ordinal_categorical_transform fitted col' = Inr rows" "r \<in> set rows"
    for col' rows r
    using that
    by (auto simp: non_ordinal_categorical_transform_def OneHotEncoder_transform_def
        length_one_hot cats split: if_splits)
  with raises show ?thesis by blast
qed

theorem unknown_category_raises_witness:
  "non_ordinal_categorical_transform (''Queens'', [''Bronx'', ''Queens''])
      [Some ''Queens'', Some ''Manhattan''] = Inl ValueError"
proof -
  have fit: "non_ordinal_categorical_fit [Some ''Bronx'', Some ''Queens'', None, Some ''Queens'']
      = Inr (''Queens'', [''Bronx'', ''Queens''])"
    by code_simp
  have "Some ''Manhattan'' \<in> set [Some ''Queens'', Some ''Manhattan'']"
    by simp
  moreover have "''Manhattan'' \<notin> set (observed [Some ''Bronx'', Some ''Queens'', None, Some ''Queens''])"
    by simp
  ultimately show ?thesis
    using unknown_category_raises[OF fit] by blast
qed

text \<open>
  A value seen only after the fit makes the transform raise: the statement that such a
  value never raises at transform time fails on this column.
\<close>

theorem unknown_category_counterexample:
  "non_ordinal_categorical_fit [Some ''Bronx'', Some ''Queens'', None, Some ''Queens'']
     = Inr (''Queens'', [''Bronx'', ''Queens''])
   \<and> non_ordinal_categorical_transform (''Queens'', [''Bronx'', ''Queens''])
       [Some ''Manhattan''] = Inl ValueError"
  by code_simp

subsection \<open>The configuration of the forest and the split\<close>

text \<open>
  C6, as the script has it. The script has no validation of its own: a configuration
  with a key that is not a parameter of the constructor makes the call of the
  constructor raise \<open>TypeError\<close>, so \<open>get_inference_pipeline\<close> fails and the key is
  never ignored.
\<close>

theorem unknown_key_raises_TypeError:
  assumes "k \<in> dom rf_config" and "k \<notin> dom init_params"
  shows "get_inference_pipeline init_params rf_config max_tfidf_features = Inl TypeError"
proof -
  from assms have "\<not> dom rf_config \<subseteq> dom init_params" by blast
  then show ?thesis
    by (simp add: get_inference_pipeline_def RandomForestRegressor_def)
qed

theorem unknown_key_raises_TypeError_witness:
  "get_inference_pipeline sklearn_init_params
      [''n_estimators'' \<mapsto> PyInt 10, ''n_trees'' \<mapsto> PyInt 10] 10 = Inl TypeError"
  using unknown_key_raises_TypeError
    [of "''n_trees''" "[''n_estimators'' \<mapsto> PyInt 10, ''n_trees'' \<mapsto> PyInt 10]"
        sklearn_init_params 10]
  by (simp add: sklearn_init_params_def)

text \<open>The failure of an unknown key is not a \<open>ConfigError\<close>.\<close>

theorem unknown_key_counterexample:
  "get_inference_pipeline sklearn_init_params
      [''n_estimators'' \<mapsto> PyInt 10, ''n_trees'' \<mapsto> PyInt 10] 10 = Inl TypeError
   \<and> get_inference_pipeline sklearn_init_params
      [''n_estimators'' \<mapsto> PyInt 10, ''n_trees'' \<mapsto> PyInt 10] 10 \<noteq> Inl ConfigError"
  by (simp add: get_inference_pipeline_def RandomForestRegressor_def sklearn_init_params_def)

text \<open>
  C8. With \<open>stratify_by\<close> left at its default \<open>''none''\<close> and a frame that has no column
  of that name, \<open>go\<close> raises \<open>KeyError\<close> at \<open>X[args.stratify_by]\<close>, before
  \<open>train_test_split\<close> is called, whatever the splitter, the configuration and the seed.
\<close>

theorem stratify_by_none_raises_KeyError:
  "go init_params train_test_split rf_config random_seed val_size ''none''
      max_tfidf_features example_frame = Inl (KeyError ''none'')"
  by (simp add: go_def pop_def getitem_def example_frame_def)

text \<open>
  When \<open>go\<close> reaches the split, the labels it passes are a column of the frame: it
  never asks for a split without stratification.
\<close>

lemma go_always_stratifies:
  assumes "go init_params train_test_split rf_config random_seed val_size stratify_by
             max_tfidf_features X0 = Inr r"
  shows "\<exists>y X labels. pop ''price'' X0 = Inr (y, X) \<and> map_of X stratify_by = Some labels
           \<and> train_test_split X y val_size (Some labels) random_seed = Inr (folds r)"
  using assms
  by (auto simp: go_def Let_def getitem_def split: sum.splits option.splits prod.splits)

text \<open>
  C9. Whenever \<open>go\<close> constructs the pipeline, the configuration it keeps and the
  parameters of the forest have \<open>random_state\<close> equal to the seed of the run, also
  when the configuration read from the file had a \<open>random_state\<close> of its own; the
  forest is the one the constructor builds from that configuration.
\<close>

theorem random_state_is_seed:
  assumes "go init_params train_test_split rf_config random_seed val_size stratify_by
             max_tfidf_features X0 = Inr r"
  shows "config r = rf_config(''random_state'' \<mapsto> PyInt random_seed)
         \<and> RandomForestRegressor init_params (config r) = Inr (random_forest (pipe r))
         \<and> params (random_forest (pipe r)) ''random_state'' = Some (PyInt random_seed)"
proof -
  define cfg where "cfg = rf_config(''random_state'' \<mapsto> PyInt random_seed)"
  from assms obtain sk feats
    where built: "get_inference_pipeline init_params cfg max_tfidf_features = Inr (sk, feats)"
      and r: "config r = cfg" "pipe r = sk"
    by (auto simp: go_def Let_def cfg_def split: sum.splits prod.splits)
  from built obtain forest
    where forest: "RandomForestRegressor init_params cfg = Inr forest"
      and sk: "random_forest sk = forest"
    by (auto simp: get_inference_pipeline_def split: sum.splits)
  from forest have "params forest = init_params ++ cfg"
    by (auto simp: RandomForestRegressor_def split: if_splits)
  then have "params forest ''random_state'' = Some (PyInt random_seed)"
    by (simp add: cfg_def)
  with forest sk r show ?thesis
    by (simp add: cfg_def)
qed

theorem random_state_is_seed_witness:
  "\<exists>r. go sklearn_init_params (\<lambda>X y test_size stratify random_state. Inr (X, y))
          [''n_estimators'' \<mapsto> PyInt 10, ''random_state'' \<mapsto> PyInt 7] 42 0.2
          ''neighbourhood_group'' 10 example_frame = Inr r
       \<and> params (random_forest (pipe r)) ''random_state'' = Some (PyInt 42)"
proof -
  obtain r where r: "go sklearn_init_params (\<lambda>X y test_size stratify random_state. Inr (X, y))
          [''n_estimators'' \<mapsto> PyInt 10, ''random_state'' \<mapsto> PyInt 7] 42 0.2
          ''neighbourhood_group'' 10 example_frame = Inr r"
    by (simp add: go_def Let_def pop_def getitem_def example_frame_def
        get_inference_pipeline_def RandomForestRegressor_def sklearn_init_params_def)
  from random_state_is_seed[OF r] r show ?thesis
    by blast
qed


end
